theory Spec2Isabelle
  imports Main
begin

section \<open>Networks (src/compose/network.ts)\<close>

subsection \<open>Data\<close>

text \<open>
  A \<open>Dictionary<string>\<close> (labels, driver options) is a map from keys to strings.
  Lodash's \<open>_.isEqual\<close> compares two such objects key by key, whatever the insertion
  order, which is equality of maps.
\<close>

type_synonym dict = "string \<rightharpoonup> string"

text \<open>
  One entry of \<open>ipam.config\<close>. Every key is optional; \<open>None\<close> stands for a key that is
  absent, \<open>undefined\<close> or \<open>null\<close> (the source tests them with \<open>== null\<close>).
\<close>

record ipam_entry =
  subnet :: "string option"
  gateway :: "string option"
  ipRange :: "string option"
  auxAddress :: "string option"

text \<open>
  The \<open>ipam\<close> object of a network. \<open>fromComposeObject\<close> receives it as a
  \<open>Partial<...>\<close>, fills the missing keys in place and stores the very same object in the
  network's config, so its keys are optional here and the object lives in a store:
  \<open>{ ...this.config }\<close> in \<open>isEqualConfig\<close> copies the reference, not the object.
\<close>

record ipam_obj =
  ipam_driver :: "string option"
  ipam_config :: "ipam_entry list option"
  ipam_options :: "dict option"

type_synonym addr = nat

record store =
  cells :: "addr \<Rightarrow> ipam_obj"
  fresh :: addr

definition alloc :: "store \<Rightarrow> ipam_obj \<Rightarrow> addr \<times> store" where
  "alloc h v = (fresh h, h\<lparr>cells := (cells h)(fresh h := v), fresh := Suc (fresh h)\<rparr>)"

text \<open>
  \<open>NetworkConfig\<close> and \<open>Network\<close>. The type parameter is what the field \<open>ipam\<close>
  holds: an address for the objects of the running program (\<open>addr Network\<close>), the
  object itself for a network taken as a plain value (\<open>ipam_obj Network\<close>).
\<close>

record 'i NetworkConfig =
  driver :: string
  ipam :: 'i
  enableIPv6 :: bool
  internal :: bool
  labels :: dict
  options :: dict

record 'i Network =
  appId :: int
  name :: string
  config :: "'i NetworkConfig"
  uuid :: "string option"

text \<open>
  The compose description of a network, the last argument of \<open>fromComposeObject\<close>:
  \<open>Partial<Omit<ComposeNetworkConfig, 'ipam'>> & { ipam?: Partial<...> }\<close>, with the keys
  \<open>driver\<close>, \<open>driver_opts\<close>, \<open>enable_ipv6\<close>, \<open>internal\<close>, \<open>ipam\<close> and \<open>labels\<close>
  (those \<open>fromComposeObject\<close> reads and \<open>toComposeObject\<close> writes).
\<close>

record ComposeNetworkConfig =
  compose_driver :: "string option"
  compose_driver_opts :: "dict option"
  compose_enable_ipv6 :: "bool option"
  compose_internal :: "bool option"
  compose_ipam :: "addr option"
  compose_labels :: "dict option"

datatype error =
  InvalidNetworkConfigurationError string
  | TypeError

subsection \<open>Lodash helpers\<close>

text \<open>\<open>_.omit(object, keys)\<close>: a new object without the given keys.\<close>

definition omit :: "dict \<Rightarrow> string list \<Rightarrow> dict" where
  "omit m ks = (\<lambda>k. if k \<in> set ks then None else m k)"

text \<open>
  The values \<open>_.get\<close> walks through when it is given the compose object: the object's own
  keys are the ones that are set.
\<close>

datatype jsval =
  JUndefined
  | JBool bool
  | JString string
  | JDict dict
  | JEntries "ipam_entry list"
  | JObject "(string \<times> jsval) list"

definition ipam_object :: "ipam_obj \<Rightarrow> jsval" where
  "ipam_object i = JObject (
     (case ipam_driver i of None \<Rightarrow> [] | Some d \<Rightarrow> [(''driver'', JString d)]) @
     (case ipam_config i of None \<Rightarrow> [] | Some c \<Rightarrow> [(''config'', JEntries c)]) @
     (case ipam_options i of None \<Rightarrow> [] | Some d \<Rightarrow> [(''options'', JDict d)]))"

definition compose_object :: "store \<Rightarrow> ComposeNetworkConfig \<Rightarrow> jsval" where
  "compose_object h n = JObject (
     (case compose_driver n of None \<Rightarrow> [] | Some d \<Rightarrow> [(''driver'', JString d)]) @
     (case compose_driver_opts n of None \<Rightarrow> [] | Some d \<Rightarrow> [(''driver_opts'', JDict d)]) @
     (case compose_enable_ipv6 n of None \<Rightarrow> [] | Some b \<Rightarrow> [(''enable_ipv6'', JBool b)]) @
     (case compose_internal n of None \<Rightarrow> [] | Some b \<Rightarrow> [(''internal'', JBool b)]) @
     (case compose_ipam n of None \<Rightarrow> [] | Some p \<Rightarrow> [(''ipam'', ipam_object (cells h p))]) @
     (case compose_labels n of None \<Rightarrow> [] | Some d \<Rightarrow> [(''labels'', JDict d)]))"

text \<open>
  \<open>_.get(object, path, defaultValue)\<close> with the path split at the dots: the default is
  returned as soon as a key of the path is missing, or when the value found is
  \<open>undefined\<close>.
\<close>

fun lodash_get :: "jsval \<Rightarrow> string list \<Rightarrow> jsval \<Rightarrow> jsval" where
  "lodash_get v [] d = (if v = JUndefined then d else v)"
| "lodash_get (JObject kvs) (k # ks) d =
     (case map_of kvs k of None \<Rightarrow> d | Some v \<Rightarrow> lodash_get v ks d)"
| "lodash_get (JDict m) (k # ks) d =
     (case m k of None \<Rightarrow> d | Some s \<Rightarrow> lodash_get (JString s) ks d)"
| "lodash_get v (k # ks) d = d"

subsection \<open>Network.validateComposeConfig and Network.fromComposeObject\<close>

text \<open>
  \<open>_.each(_.get(config, 'config.ipam.config', []), ({ subnet, gateway }) => ...)\<close>: the
  callback throws at the first entry whose subnet or gateway is \<open>null\<close> or
  \<open>undefined\<close>. The path is the one the source writes. Lemma \<open>validate_path_default\<close>
  below shows that on a compose object the lookup always ends in the default, so the
  last branch is never taken.
\<close>

definition validateComposeConfig :: "store \<Rightarrow> ComposeNetworkConfig \<Rightarrow> error + unit" where
  "validateComposeConfig h config' =
     (case lodash_get (compose_object h config') [''config'', ''ipam'', ''config''] (JEntries []) of
        JEntries es \<Rightarrow>
          if list_ex (\<lambda>e. subnet e = None \<or> gateway e = None) es
          then Inl (InvalidNetworkConfigurationError
                 ''Network IPAM config entries must have both a subnet and gateway'')
          else Inr ()
      | _ \<Rightarrow> Inr ())"

text \<open>
  \<open>fromComposeObject(name, appId, uuid, network)\<close>. \<open>ComposeUtils.normalizeLabels\<close>
  (compose/utils.ts) is missing and is taken as the parameter \<open>normalizeLabels\<close>.
  \<open>network.ipam || {}\<close> allocates a new object only when the compose object has none;
  the three defaults are written into that object. \<open>x || d\<close> yields \<open>d\<close> for every falsy
  \<open>x\<close>: \<open>undefined\<close>, \<open>false\<close> and the empty string.
\<close>

definition fromComposeObject ::
  "(dict \<Rightarrow> dict) \<Rightarrow> store \<Rightarrow> string \<Rightarrow> int \<Rightarrow> string \<Rightarrow> ComposeNetworkConfig
     \<Rightarrow> error + (addr Network \<times> store)" where
  "fromComposeObject normalizeLabels h name' appId' uuid' network =
     (case validateComposeConfig h network of
        Inl e \<Rightarrow> Inl e
      | Inr _ \<Rightarrow>
          let (p, h0) = (case compose_ipam network of
                           Some p \<Rightarrow> (p, h)
                         | None \<Rightarrow> alloc h \<lparr>ipam_driver = None, ipam_config = None,
                                             ipam_options = None\<rparr>);
              i0 = cells h0 p;
              i1 = (if ipam_driver i0 = None then i0\<lparr>ipam_driver := Some ''default''\<rparr> else i0);
              i2 = (if ipam_config i1 = None then i1\<lparr>ipam_config := Some []\<rparr> else i1);
              i3 = (if ipam_options i2 = None then i2\<lparr>ipam_options := Some Map.empty\<rparr> else i2);
              h1 = h0\<lparr>cells := (cells h0)(p := i3)\<rparr>;
              cfg = \<lparr>driver = (case compose_driver network of
                                  None \<Rightarrow> ''bridge''
                                | Some d \<Rightarrow> if d = [] then ''bridge'' else d),
                     ipam = p,
                     enableIPv6 = (case compose_enable_ipv6 network of None \<Rightarrow> False | Some b \<Rightarrow> b),
                     internal = (case compose_internal network of None \<Rightarrow> False | Some b \<Rightarrow> b),
                     labels = (case compose_labels network of None \<Rightarrow> Map.empty | Some l \<Rightarrow> l),
                     options = (case compose_driver_opts network of None \<Rightarrow> Map.empty | Some d \<Rightarrow> d)\<rparr>;
              cfg' = cfg\<lparr>labels := (normalizeLabels (labels cfg))(''io.balena.app-uuid'' \<mapsto> uuid')\<rparr>
          in Inr (\<lparr>appId = appId', name = name', config = cfg', uuid = Some uuid'\<rparr>, h1))"

subsection \<open>Network.isEqualConfig\<close>

text \<open>
  \<open>_.isEqual\<close> on two configs: the own keys of both are those of \<open>NetworkConfig\<close>, and
  the \<open>ipam\<close> objects are compared by content, read from the store.
\<close>

definition isEqual :: "store \<Rightarrow> addr NetworkConfig \<Rightarrow> addr NetworkConfig \<Rightarrow> bool" where
  "isEqual h c1 c2 \<longleftrightarrow>
     driver c1 = driver c2 \<and> cells h (ipam c1) = cells h (ipam c2) \<and>
     enableIPv6 c1 = enableIPv6 c2 \<and> internal c1 = internal c2 \<and>
     labels c1 = labels c2 \<and> options c1 = options c2"

text \<open>
  \<open>this.isEqualConfig(network)\<close>. The two spread copies are the local records
  \<open>configToCompare\<close> and \<open>otherConfig\<close>; both still hold the addresses of the original
  \<open>ipam\<close> objects, so \<open>configToCompare.ipam.config = []\<close> writes to the store, while the
  two assignments to \<open>labels\<close> change only the copies. Reading \<open>.length\<close> of a missing
  \<open>ipam.config\<close> is JavaScript's TypeError. The result is the boolean and the store
  after the call.
\<close>

definition isEqualConfig ::
  "store \<Rightarrow> addr Network \<Rightarrow> addr Network \<Rightarrow> error + (bool \<times> store)" where
  "isEqualConfig h this network =
     (let configToCompare = config this;
          otherConfig = config network
      in case ipam_config (cells h (ipam otherConfig)) of
           None \<Rightarrow> Inl TypeError
         | Some oc \<Rightarrow>
             let h' = (if length oc = 0
                       then h\<lparr>cells := (cells h)(ipam configToCompare :=
                                (cells h (ipam configToCompare))\<lparr>ipam_config := Some []\<rparr>)\<rparr>
                       else h);
                 configToCompare' = configToCompare\<lparr>labels :=
                                      omit (labels configToCompare) [''io.balena.app-uuid'']\<rparr>;
                 otherConfig' = otherConfig\<lparr>labels :=
                                      omit (labels otherConfig) [''io.balena.app-uuid'']\<rparr>
             in Inr (isEqual h' configToCompare' otherConfig', h'))"

subsection \<open>Networks as plain values\<close>

text \<open>
  The network an address-holding record denotes in a store: the \<open>ipam\<close> object is read
  from the store and put in place of its address.
\<close>

definition valueOf :: "store \<Rightarrow> addr Network \<Rightarrow> ipam_obj Network" where
  "valueOf h n =
     \<lparr>appId = appId n, name = name n,
      config = \<lparr>driver = driver (config n), ipam = cells h (ipam (config n)),
                enableIPv6 = enableIPv6 (config n), internal = internal (config n),
                labels = labels (config n), options = options (config n)\<rparr>,
      uuid = uuid n\<rparr>"

text \<open>
  The boolean \<open>isEqualConfig\<close> returns, computed on two plain values: the same three
  steps of the source (empty the \<open>ipam.config\<close> of the copy when the other side has
  none, drop the app-uuid label on both sides, compare), with no store to write to.
  Lemma \<open>isEqualConfig_value_agrees\<close> relates it to \<open>isEqualConfig\<close>.
\<close>

definition isEqualConfig_value :: "ipam_obj Network \<Rightarrow> ipam_obj Network \<Rightarrow> bool" where
  "isEqualConfig_value this network =
     (let configToCompare = config this;
          otherConfig = config network;
          configToCompare' =
            (if ipam_config (ipam otherConfig) = Some []
             then configToCompare\<lparr>ipam := (ipam configToCompare)\<lparr>ipam_config := Some []\<rparr>\<rparr>
             else configToCompare)
      in configToCompare'\<lparr>labels := omit (labels configToCompare') [''io.balena.app-uuid'']\<rparr> =
         otherConfig\<lparr>labels := omit (labels otherConfig) [''io.balena.app-uuid'']\<rparr>)"

text \<open>
  Writing, changing or removing the label \<open>io.balena.app-uuid\<close> of a network
  (\<open>None\<close> removes it).
\<close>

definition set_app_uuid :: "string option \<Rightarrow> addr Network \<Rightarrow> addr Network" where
  "set_app_uuid v n =
     n\<lparr>config := (config n)\<lparr>labels := (labels (config n))(''io.balena.app-uuid'' := v)\<rparr>\<rparr>"

text \<open>
  Two configs that are identical but for the presence or the value of the label
  \<open>io.balena.app-uuid\<close>: every other key agrees, the \<open>ipam\<close> objects by content.
\<close>

definition same_except_app_uuid ::
  "store \<Rightarrow> addr NetworkConfig \<Rightarrow> addr NetworkConfig \<Rightarrow> bool" where
  "same_except_app_uuid h c1 c2 \<longleftrightarrow>
     driver c1 = driver c2 \<and> cells h (ipam c1) = cells h (ipam c2) \<and>
     enableIPv6 c1 = enableIPv6 c2 \<and> internal c1 = internal c2 \<and>
     omit (labels c1) [''io.balena.app-uuid''] = omit (labels c2) [''io.balena.app-uuid''] \<and>
     options c1 = options c2"

text \<open>What a call returns to its caller: the error or the boolean, without the store.\<close>

definition returned :: "error + (bool \<times> store) \<Rightarrow> error + bool" where
  "returned r = (case r of Inl e \<Rightarrow> Inl e | Inr (b, h) \<Rightarrow> Inr b)"

section \<open>The app planner\<close>

text \<open>
  The planner, \<open>App.nextStepsForAppUpdate\<close> of src/compose/app.ts, is missing from the
  files at hand, and so are the types it works on (service.ts, volume.ts, images.ts,
  composition-steps.ts). What is at hand is its test, test/34-compose-app.ts, and
  src/compose/host-extension.ts, which tests the availability of an image the way the
  planner does. Every definition of this section is therefore written from the
  specification, sections 3 and 4.1 to 4.3, and says so.
\<close>

subsection \<open>Data model\<close>

text \<open>Modelled from the spec: the \<open>status\<close> of a Service (section 3); service.ts is missing.\<close>

datatype status = Installing | Installed | Running | Stopping | Stopped | Dead | Handover

text \<open>
  Modelled from the spec: the declarative container config of a Service (section 3; the
  type ServiceComposeConfig of types/service.ts is missing). The update strategy is one of
  the labels, a reference to a volume is its name, and the networks mapping goes from
  network names to their settings.
\<close>

record ServiceConfig =
  service_image :: string
  service_labels :: dict
  privileged :: bool
  environment :: dict
  service_volumes :: "string list"
  service_networks :: "(string \<times> dict) list"
  running :: bool
  restart :: string
  depends_on :: "string list"

text \<open>Modelled from the spec: Service (section 3); service.ts is missing.\<close>

record Service =
  service_appId :: int
  serviceName :: string
  releaseId :: int
  serviceId :: int
  imageId :: int
  imageName :: string
  containerId :: "string option"
  service_config :: ServiceConfig
  status :: status
  createdAt :: int
  dependsOn :: "string list"

text \<open>Modelled from the spec: the config of a Volume (section 3); volume.ts is missing.\<close>

record VolumeConfig =
  volume_driver :: string
  volume_driver_opts :: dict
  volume_labels :: dict

text \<open>Modelled from the spec: Volume (section 3); volume.ts is missing.\<close>

record Volume =
  volume_appId :: int
  volume_name :: string
  volume_config :: VolumeConfig

text \<open>Modelled from the spec: the \<open>status\<close> of an Image (section 3); images.ts is missing.\<close>

datatype image_status = Downloading | Downloaded | Deleting

text \<open>
  Modelled from the spec: Image (section 3); images.ts is missing. The image descriptor
  of a fetch step is made from a service and has no digest, status or progress yet (as
  the images of test/34-compose-app.ts have none), so the three are optional.
\<close>

record Image =
  image_imageId :: int
  image_appId :: int
  image_serviceId :: int
  image_serviceName :: string
  image_releaseId :: int
  image_name :: string
  dockerImageId :: "string option"
  image_status :: "image_status option"
  downloadProgress :: "nat option"

text \<open>
  Modelled from the spec: Context (section 3); its type is declared in the missing
  app.ts. The process-wide memo \<open>containerStarted\<close> of application-manager (missing) is
  a field of the context, as section 9 proposes: the ids of the containers the executor
  has asked to start.
\<close>

record Context =
  localMode :: bool
  availableImages :: "Image list"
  containerIds :: dict
  downloading :: "int list"
  containerStarted :: "string list"

text \<open>
  Modelled from the spec: App (section 3); app.ts is missing. The two mappings are lists
  keyed by the name of their elements, as \<open>_.keyBy(networks, 'name')\<close> makes them in
  \<open>createApp\<close> of the test.
\<close>

record App =
  app_appId :: int
  appUuid :: "string option"
  services :: "Service list"
  networks :: "ipam_obj Network list"
  volumes :: "Volume list"
  isTarget :: bool

text \<open>
  Modelled from the spec: the step vocabulary (section 4.1); composition-steps.ts is
  missing. Each step carries the payload of the table.
\<close>

datatype CompositionStep =
  Fetch Image
  | RemoveImage Image
  | CreateNetwork "ipam_obj Network"
  | RemoveNetwork "ipam_obj Network"
  | CreateVolume Volume
  | RemoveVolume Volume
  | Start Service
  | Stop Service
  | Kill Service
  | Remove Service
  | UpdateMetadata Service Service
  | HandoverStep Service Service
  | Restart Service
  | Noop

text \<open>
  Modelled from the spec: the update strategies (section 4.3.1); they are read in the
  missing app.ts.
\<close>

datatype strategy = DownloadThenKill | KillThenDownload | DeleteThenDownload | HandOver

subsection \<open>Lookups and equality predicates\<close>

text \<open>
  Modelled from the spec: \<open>Volume.isEqualConfig\<close> (sections 6 and 9: deep structural
  equality after the supervised labels are stripped); volume.ts is missing. The label
  stripped is the one the network's \<open>isEqualConfig\<close> strips.
\<close>

definition Volume_isEqualConfig :: "Volume \<Rightarrow> Volume \<Rightarrow> bool" where
  "Volume_isEqualConfig this volume \<longleftrightarrow>
     (volume_config this)\<lparr>volume_labels :=
        omit (volume_labels (volume_config this)) [''io.balena.app-uuid'']\<rparr> =
     (volume_config volume)\<lparr>volume_labels :=
        omit (volume_labels (volume_config volume)) [''io.balena.app-uuid'']\<rparr>"

text \<open>
  Modelled from the spec: the default network the planner synthesizes "with default
  driver bridge" (section 4.3 (b)); app.ts, which makes it, is missing. With an app uuid
  it is the value \<open>Network.fromComposeObject('default', appId, uuid, {})\<close> builds (lemma
  \<open>defaultNetwork_fromComposeObject\<close>).
\<close>

definition defaultNetwork :: "int \<Rightarrow> string option \<Rightarrow> ipam_obj Network" where
  "defaultNetwork a u =
     \<lparr>appId = a, name = ''default'',
      config = \<lparr>driver = ''bridge'',
                ipam = \<lparr>ipam_driver = Some ''default'', ipam_config = Some [],
                        ipam_options = Some Map.empty\<rparr>,
                enableIPv6 = False, internal = False,
                labels = (case u of None \<Rightarrow> Map.empty | Some s \<Rightarrow> [''io.balena.app-uuid'' \<mapsto> s]),
                options = Map.empty\<rparr>,
      uuid = u\<rparr>"

text \<open>Modelled from the spec: \<open>app.volumes[name]\<close> (section 3); app.ts is missing.\<close>

definition lookupVolume :: "App \<Rightarrow> string \<Rightarrow> Volume option" where
  "lookupVolume app n = find (\<lambda>v. volume_name v = n) (volumes app)"

text \<open>Modelled from the spec: \<open>networks[name]\<close> (section 3); app.ts is missing.\<close>

definition lookupNetwork :: "ipam_obj Network list \<Rightarrow> string \<Rightarrow> ipam_obj Network option" where
  "lookupNetwork ns n = find (\<lambda>x. name x = n) ns"

text \<open>
  Modelled from the spec: the service of an app with a given serviceName (section 3: no
  two services of the current state share one); app.ts is missing.
\<close>

definition lookupService :: "App \<Rightarrow> string \<Rightarrow> Service option" where
  "lookupService app n = find (\<lambda>s. serviceName s = n) (services app)"

text \<open>
  Modelled from the spec: the networks of the target with the default network
  synthesized when \<open>target.networks['default']\<close> is absent (section 4.3 (b)); app.ts is
  missing. The spec asks for it when a target service exists; the test "should create
  the default network if it does not exist" (test/34-compose-app.ts, lines 450 to 460)
  expects it for a target without services too, so no condition on the services is put
  here.
\<close>

definition targetNetworks :: "App \<Rightarrow> ipam_obj Network list" where
  "targetNetworks target =
     networks target @
     (if lookupNetwork (networks target) ''default'' = None
      then [defaultNetwork (app_appId target) (appUuid target)] else [])"

subsection \<open>Image inventory view\<close>

text \<open>
  Modelled from the spec: \<open>isAvailable\<close> (section 4.2); app.ts is missing. It is the
  test \<open>extensionImagesToFetch\<close> of host-extension.ts makes: \<open>image.dockerImageId ===
  svc.config.image || images.isSameImage(image, { name: svc.imageName })\<close>.
  \<open>isSameImage\<close> (images.ts) is missing too and is a parameter.
\<close>

definition isAvailable :: "(string \<Rightarrow> string \<Rightarrow> bool) \<Rightarrow> Context \<Rightarrow> Service \<Rightarrow> bool" where
  "isAvailable isSameImage ctx s =
     list_ex (\<lambda>i. dockerImageId i = Some (service_image (service_config s)) \<or>
                   isSameImage (image_name i) (imageName s))
       (availableImages ctx)"

text \<open>Modelled from the spec: \<open>isDownloading\<close> (section 4.2); app.ts is missing.\<close>

definition isDownloading :: "Context \<Rightarrow> Service \<Rightarrow> bool" where
  "isDownloading ctx s \<longleftrightarrow> imageId s \<in> set (downloading ctx)"

text \<open>
  Modelled from the spec: the image descriptor of a service, the payload of \<open>fetch\<close> and
  \<open>removeImage\<close> (sections 4.1 and 7); \<open>images.imageFromService\<close> is missing.
\<close>

definition imageFromService :: "Service \<Rightarrow> Image" where
  "imageFromService s =
     \<lparr>image_imageId = imageId s, image_appId = service_appId s, image_serviceId = serviceId s,
      image_serviceName = serviceName s, image_releaseId = releaseId s, image_name = imageName s,
      dockerImageId = None, image_status = None, downloadProgress = None\<rparr>"

subsection \<open>Step families\<close>

text \<open>
  Modelled from the spec: the service-kill rules (section 4.3 (c), "only in current":
  noop for a service that is Stopping, remove for a Dead one, kill otherwise); app.ts is
  missing.
\<close>

definition teardownStep :: "Service \<Rightarrow> CompositionStep" where
  "teardownStep s =
     (if status s = Stopping then Noop else if status s = Dead then Remove s else Kill s)"

text \<open>
  Modelled from the spec: the volume steps (section 4.3 (a)); app.ts is missing. A
  volume of the target that current lacks is created; a volume of both whose configs
  differ is removed once no current service lists it, the services that list it being
  torn down first by the service-kill rules; a volume that only current has is left
  alone.
\<close>

definition volumeSteps :: "App \<Rightarrow> App \<Rightarrow> CompositionStep list" where
  "volumeSteps current target =
     map CreateVolume
       (filter (\<lambda>t. lookupVolume current (volume_name t) = None) (volumes target)) @
     concat (map (\<lambda>c.
        case lookupVolume target (volume_name c) of
          None \<Rightarrow> []
        | Some t \<Rightarrow>
            if Volume_isEqualConfig c t then []
            else (case filter (\<lambda>s. volume_name c \<in> set (service_volumes (service_config s)))
                         (services current) of
                    [] \<Rightarrow> [RemoveVolume c]
                  | users \<Rightarrow> map teardownStep users))
        (volumes current))"

text \<open>
  Modelled from the spec: the network steps (section 4.3 (b): "same shape as volumes",
  over the target networks with the default network); app.ts is missing. One case is
  taken from the test instead: a network that only current has is removed once no
  current service uses it ("should correctly infer a network remove step", lines 330 to
  345, and "should kill dependencies of networks before removing", lines 381 to 396),
  where a volume is kept.
\<close>

definition networkSteps :: "App \<Rightarrow> App \<Rightarrow> CompositionStep list" where
  "networkSteps current target =
     map CreateNetwork
       (filter (\<lambda>t. lookupNetwork (networks current) (name t) = None) (targetNetworks target)) @
     concat (map (\<lambda>c.
        if (case lookupNetwork (targetNetworks target) (name c) of
              None \<Rightarrow> False
            | Some t \<Rightarrow> isEqualConfig_value c t)
        then []
        else (case filter (\<lambda>s. name c \<in> set (map fst (service_networks (service_config s))))
                     (services current) of
                [] \<Rightarrow> [RemoveNetwork c]
              | users \<Rightarrow> map teardownStep users))
        (networks current))"

text \<open>
  Modelled from the spec: "emit fetch (unless already downloading, then noop)" (section
  4.3 (c) 1 and section 5); app.ts is missing.
\<close>

definition fetchOrNoop :: "Context \<Rightarrow> Service \<Rightarrow> CompositionStep list" where
  "fetchOrNoop ctx t = (if isDownloading ctx t then [Noop] else [Fetch (imageFromService t)])"

text \<open>
  Modelled from the spec: the value of the label \<open>io.balena.update.strategy\<close> (section
  4.3.1), an unknown value being the default (section 9); app.ts is missing.
\<close>

definition strategyOf :: "Service \<Rightarrow> strategy" where
  "strategyOf s =
     (case service_labels (service_config s) ''io.balena.update.strategy'' of
        None \<Rightarrow> DownloadThenKill
      | Some v \<Rightarrow>
          if v = ''kill-then-download'' then KillThenDownload
          else if v = ''delete-then-download'' then DeleteThenDownload
          else if v = ''hand-over'' then HandOver
          else DownloadThenKill)"

text \<open>
  Modelled from the spec: the labels that count in a material change, those outside
  \<open>io.balena.*\<close> (section 4.3.1); service.ts is missing.
\<close>

definition userLabels :: "dict \<Rightarrow> dict" where
  "userLabels m = (\<lambda>k. if take 10 k = ''io.balena.'' then None else m k)"

text \<open>
  Modelled from the spec: \<open>isEqualExceptForRunningAndRelease\<close> (sections 4.3 (c) and
  4.3.1: equality of every field of the config but \<open>running\<close>, the \<open>io.balena.*\<close>
  labels and the release metadata); service.ts is missing.
\<close>

definition isEqualExceptForRunningAndRelease :: "Service \<Rightarrow> Service \<Rightarrow> bool" where
  "isEqualExceptForRunningAndRelease c t \<longleftrightarrow>
     (let a = service_config c; b = service_config t
      in service_image a = service_image b \<and>
         userLabels (service_labels a) = userLabels (service_labels b) \<and>
         privileged a = privileged b \<and> environment a = environment b \<and>
         service_volumes a = service_volumes b \<and>
         map_of (service_networks a) = map_of (service_networks b) \<and>
         restart a = restart b \<and> depends_on a = depends_on b)"

text \<open>
  Modelled from the spec: precondition 2 of a start (section 4.3 (c): the networks and
  volumes the service references exist in current, "else depend on (a)/(b) above
  completing first"); app.ts is missing. A volume or network that (a) or (b) is about to
  remove and create again has not completed: in the scenario "volume recreation with
  dependents" of section 8 the round that removes the volume starts nothing.
\<close>

definition referencesReady :: "App \<Rightarrow> App \<Rightarrow> Service \<Rightarrow> bool" where
  "referencesReady current target t \<longleftrightarrow>
     list_all (\<lambda>n. case lookupVolume current n of
                      None \<Rightarrow> False
                    | Some c \<Rightarrow> (case lookupVolume target n of
                                   None \<Rightarrow> True
                                 | Some v \<Rightarrow> Volume_isEqualConfig c v))
       (service_volumes (service_config t)) \<and>
     list_all (\<lambda>n. case lookupNetwork (networks current) n of
                      None \<Rightarrow> False
                    | Some c \<Rightarrow> (case lookupNetwork (targetNetworks target) n of
                                   None \<Rightarrow> True
                                 | Some v \<Rightarrow> isEqualConfig_value c v))
       (map fst (service_networks (service_config t)))"

text \<open>
  Modelled from the spec: precondition 3 of a start (section 4.3 (c): every dependsOn
  sibling is in current with status Running and its containerStarted flag set); app.ts
  is missing. The flag of a service is the memo's entry for its container id.
\<close>

definition dependenciesStarted :: "Context \<Rightarrow> App \<Rightarrow> Service \<Rightarrow> bool" where
  "dependenciesStarted ctx current t \<longleftrightarrow>
     list_all (\<lambda>d. case lookupService current d of
                      None \<Rightarrow> False
                    | Some s \<Rightarrow> status s = Running \<and>
                        (case containerId s of
                           None \<Rightarrow> False
                         | Some i \<Rightarrow> i \<in> set (containerStarted ctx)))
       (dependsOn t)"

text \<open>
  Modelled from the spec: the steps for one serviceName (section 4.3 (c) and the table
  of 4.3.1); app.ts is missing. The running state compared is the \<open>running\<close> flag of
  the two configs, as the tests "should stop a container which has stoppped as its
  target" and "should create a start step when all that changes is a running state"
  set it; the strategy is the target's label; a handover step stands for the start of
  the target beside the current service, the signal and the kill that follow.
\<close>

definition stepsForService ::
  "(string \<Rightarrow> string \<Rightarrow> bool) \<Rightarrow> Context \<Rightarrow> App \<Rightarrow> App \<Rightarrow> string \<Rightarrow> CompositionStep list" where
  "stepsForService isSameImage ctx current target n =
     (case (lookupService current n, lookupService target n) of
        (None, None) \<Rightarrow> []
      | (None, Some t) \<Rightarrow>
          if \<not> isAvailable isSameImage ctx t then fetchOrNoop ctx t
          else if \<not> referencesReady current target t then []
          else if \<not> dependenciesStarted ctx current t then [Noop]
          else [Start t]
      | (Some c, None) \<Rightarrow> [teardownStep c]
      | (Some c, Some t) \<Rightarrow>
          if status c = Dead then [Remove c]
          else if isEqualExceptForRunningAndRelease c t then
            (if releaseId c \<noteq> releaseId t then [UpdateMetadata c t]
             else if \<not> running (service_config t) \<and> running (service_config c) then [Stop c]
             else if running (service_config t) \<and> \<not> running (service_config c) then [Start t]
             else [])
          else (case strategyOf t of
                  DownloadThenKill \<Rightarrow>
                    if isAvailable isSameImage ctx t then [Kill c] else fetchOrNoop ctx t
                | KillThenDownload \<Rightarrow> [Kill c]
                | DeleteThenDownload \<Rightarrow> [Kill c, RemoveImage (imageFromService c)]
                | HandOver \<Rightarrow>
                    if isAvailable isSameImage ctx t then [HandoverStep c t]
                    else fetchOrNoop ctx t))"

text \<open>
  Modelled from the spec: the service steps, one group for each serviceName of the
  union of current and target (section 4.3 (c)); app.ts is missing.
\<close>

definition serviceSteps ::
  "(string \<Rightarrow> string \<Rightarrow> bool) \<Rightarrow> Context \<Rightarrow> App \<Rightarrow> App \<Rightarrow> CompositionStep list" where
  "serviceSteps isSameImage ctx current target =
     concat (map (stepsForService isSameImage ctx current target)
       (remdups (map serviceName (services current) @ map serviceName (services target))))"

text \<open>
  Modelled from the spec: \<open>current.nextStepsForAppUpdate(context, target)\<close>, the batch
  of one app (sections 4.3 and 4.3.2: the steps of every family, in no order that
  matters); app.ts is missing.
\<close>

definition nextStepsForAppUpdate ::
  "(string \<Rightarrow> string \<Rightarrow> bool) \<Rightarrow> Context \<Rightarrow> App \<Rightarrow> App \<Rightarrow> CompositionStep list" where
  "nextStepsForAppUpdate isSameImage ctx current target =
     volumeSteps current target @ networkSteps current target @
     serviceSteps isSameImage ctx current target"

section \<open>Concrete inputs\<close>

text \<open>
  The compose object \<open>{ ipam: { config: [{ subnet: '172.20.0.0/16' }] } }\<close>: its only
  ipam entry has no gateway. The \<open>ipam\<close> object is cell 0 of the store.
\<close>

definition entry_without_gateway :: ipam_entry where
  "entry_without_gateway =
     \<lparr>subnet = Some ''172.20.0.0/16'', gateway = None, ipRange = None, auxAddress = None\<rparr>"

definition no_ipam :: ipam_obj where
  "no_ipam = \<lparr>ipam_driver = None, ipam_config = None, ipam_options = None\<rparr>"

definition store_missing_gateway :: store where
  "store_missing_gateway =
     \<lparr>cells = (\<lambda>p. no_ipam)(0 := no_ipam\<lparr>ipam_config := Some [entry_without_gateway]\<rparr>),
      fresh = 1\<rparr>"

definition compose_missing_gateway :: ComposeNetworkConfig where
  "compose_missing_gateway =
     \<lparr>compose_driver = None, compose_driver_opts = None, compose_enable_ipv6 = None,
      compose_internal = None, compose_ipam = Some 0, compose_labels = None\<rparr>"

text \<open>The empty compose object \<open>{}\<close>.\<close>

definition compose_empty :: ComposeNetworkConfig where
  "compose_empty =
     \<lparr>compose_driver = None, compose_driver_opts = None, compose_enable_ipv6 = None,
      compose_internal = None, compose_ipam = None, compose_labels = None\<rparr>"

text \<open>
  Two bridge networks of app 1 in one store. The network at cell 0 is a current-state
  network, whose \<open>ipam.config\<close> the engine has filled in; the one at cell 1 is a
  target-state network with an empty \<open>ipam.config\<close>.
\<close>

definition entry_full :: ipam_entry where
  "entry_full =
     \<lparr>subnet = Some ''172.20.0.0/16'', gateway = Some ''172.20.0.1'', ipRange = None,
      auxAddress = None\<rparr>"

definition ipam_with :: "ipam_entry list \<Rightarrow> ipam_obj" where
  "ipam_with es =
     \<lparr>ipam_driver = Some ''default'', ipam_config = Some es, ipam_options = Some Map.empty\<rparr>"

definition two_networks :: store where
  "two_networks = \<lparr>cells = (\<lambda>p. ipam_with [])(0 := ipam_with [entry_full]), fresh = 2\<rparr>"

definition network_at :: "addr \<Rightarrow> dict \<Rightarrow> addr Network" where
  "network_at p l =
     \<lparr>appId = 1, name = ''test-network'',
      config = \<lparr>driver = ''bridge'', ipam = p, enableIPv6 = False, internal = False,
                labels = l, options = Map.empty\<rparr>,
      uuid = None\<rparr>"

text \<open>The apps of the test: \<open>createApp\<close>, \<open>createService\<close> and \<open>defaultContext\<close>.\<close>

definition createApp :: "Service list \<Rightarrow> ipam_obj Network list \<Rightarrow> Volume list \<Rightarrow> bool \<Rightarrow> App" where
  "createApp ss ns vs t =
     \<lparr>app_appId = 1, appUuid = None, services = ss, networks = ns, volumes = vs, isTarget = t\<rparr>"

definition mainService :: Service where
  "mainService =
     \<lparr>service_appId = 1, serviceName = ''main'', releaseId = 1, serviceId = 1, imageId = 1,
      imageName = ''main-image'', containerId = None,
      service_config = \<lparr>service_image = ''main-image'', service_labels = Map.empty,
        privileged = False, environment = Map.empty, service_volumes = [],
        service_networks = [], running = True, restart = ''always'', depends_on = []\<rparr>,
      status = Installing, createdAt = 0, dependsOn = []\<rparr>"

definition defaultContext :: Context where
  "defaultContext =
     \<lparr>localMode = False, availableImages = [], containerIds = Map.empty, downloading = [],
      containerStarted = []\<rparr>"

text \<open>
  \<open>Network.fromComposeObject('test-network', 1, { labels })\<close> of the test as a value, and
  the service \<open>createService({ networks: { 'test-network': {} } })\<close>.
\<close>

definition testNetwork :: "dict \<Rightarrow> ipam_obj Network" where
  "testNetwork l =
     \<lparr>appId = 1, name = ''test-network'',
      config = \<lparr>driver = ''bridge'', ipam = ipam_with [], enableIPv6 = False, internal = False,
                labels = l, options = Map.empty\<rparr>,
      uuid = None\<rparr>"

definition testService :: Service where
  "testService =
     mainService\<lparr>serviceName := ''test'',
       service_config := (service_config mainService)\<lparr>service_networks :=
         [(''test-network'', Map.empty)]\<rparr>\<rparr>"

section \<open>Properties of the network code\<close>

subsection \<open>Validation and construction\<close>

text \<open>
  No compose object has a key \<open>config\<close>, so the lookup of \<open>config.ipam.config\<close> stops
  at its first key and yields the default.
\<close>

lemma compose_object_no_config_key:
  "\<exists>kvs. compose_object h c = JObject kvs \<and> map_of kvs ''config'' = None"
  by (simp add: compose_object_def split: option.splits)

lemma validate_path_default:
  "lodash_get (compose_object h c) [''config'', ''ipam'', ''config''] d = d"
  using compose_object_no_config_key [of h c] by auto

text \<open>Hence the validation accepts every compose object, and so does the constructor.\<close>

lemma validateComposeConfig_never_raises: "validateComposeConfig h c = Inr ()"
  by (simp add: validateComposeConfig_def validate_path_default)

lemma fromComposeObject_never_raises:
  "\<exists>n h'. fromComposeObject normalizeLabels h nm a u c = Inr (n, h')"
  by (simp add: fromComposeObject_def validateComposeConfig_never_raises Let_def
      split: prod.splits)

text \<open>The network it returns has the three keys of its \<open>ipam\<close> object set.\<close>

lemma fromComposeObject_fills_ipam:
  assumes "fromComposeObject normalizeLabels h nm a u c = Inr (n, h')"
  shows "ipam_driver (cells h' (ipam (config n))) \<noteq> None \<and>
         ipam_config (cells h' (ipam (config n))) \<noteq> None \<and>
         ipam_options (cells h' (ipam (config n))) \<noteq> None"
proof (cases "compose_ipam c")
  case None
  with assms show ?thesis
    by (auto simp: fromComposeObject_def validateComposeConfig_never_raises Let_def alloc_def)
next
  case (Some p)
  with assms show ?thesis
    by (auto simp: fromComposeObject_def validateComposeConfig_never_raises Let_def)
qed

text \<open>
  Claim C8 (IPAM validation at construction) says that \<open>Network.fromComposeObject\<close>
  raises InvalidNetworkConfigurationError when an entry of the ipam config list lacks a
  subnet or a gateway. The code does not: for the compose object whose only ipam entry
  has a subnet and no gateway, the constructor returns a network, and that network still
  holds the entry.
\<close>

theorem fromComposeObject_accepts_missing_gateway:
  "gateway entry_without_gateway = None \<and>
   ipam_config (cells store_missing_gateway 0) = Some [entry_without_gateway] \<and>
   (case fromComposeObject (\<lambda>l. l) store_missing_gateway ''test-network'' 1 ''deadbeef''
           compose_missing_gateway of
      Inl e \<Rightarrow> False
    | Inr (net, h') \<Rightarrow>
        ipam_config (cells h' (ipam (config net))) = Some [entry_without_gateway])"
  by (simp add: fromComposeObject_def validateComposeConfig_def compose_object_def
      ipam_object_def store_missing_gateway_def compose_missing_gateway_def no_ipam_def
      entry_without_gateway_def)

subsection \<open>Equality of configs\<close>

lemma omit_upd: "omit (m(k := v)) [k] = omit m [k]"
  by (auto simp: omit_def)

text \<open>
  What a call of \<open>isEqualConfig\<close> may change: nothing but the \<open>config\<close> list of the
  \<open>ipam\<close> object of \<open>this\<close>, and that only when the other network's list is empty.
\<close>

lemma isEqualConfig_frame:
  assumes "isEqualConfig h a b = Inr (r, h')"
  shows "fresh h' = fresh h \<and>
         (\<forall>p. p \<noteq> ipam (config a) \<longrightarrow> cells h' p = cells h p) \<and>
         ipam_driver (cells h' (ipam (config a))) = ipam_driver (cells h (ipam (config a))) \<and>
         ipam_options (cells h' (ipam (config a))) = ipam_options (cells h (ipam (config a))) \<and>
         (ipam_config (cells h (ipam (config b))) \<noteq> Some [] \<longrightarrow> h' = h)"
  using assms
  by (auto simp: isEqualConfig_def Let_def split: option.splits if_splits)

text \<open>
  When the other network's list is empty and the list of \<open>this\<close> is not, the call
  returns and the value of \<open>this\<close> is no longer what it was.
\<close>

lemma isEqualConfig_changes_this:
  assumes "ipam_config (cells h (ipam (config b))) = Some []"
    and "ipam_config (cells h (ipam (config a))) = Some (e # es)"
  shows "\<exists>r h'. isEqualConfig h a b = Inr (r, h') \<and> valueOf h' a \<noteq> valueOf h a"
proof -
  have "ipam_config ((cells h (ipam (config a)))\<lparr>ipam_config := Some []\<rparr>) \<noteq>
        ipam_config (cells h (ipam (config a)))"
    using assms(2) by simp
  then have "(cells h (ipam (config a)))\<lparr>ipam_config := Some []\<rparr> \<noteq>
             cells h (ipam (config a))"
    by metis
  with assms show ?thesis
    by (simp add: isEqualConfig_def Let_def valueOf_def)
qed

text \<open>
  Claim C9 (purity of the equality predicate) says that \<open>a.isEqualConfig(b)\<close> leaves
  \<open>a.config\<close>, \<open>a.config.ipam.config\<close> included, as it was, also for a \<open>b\<close> whose ipam
  config list is empty. The code does not: with the current-state network at cell 0,
  whose list has one entry, and the target-state network at cell 1, whose list is empty,
  the call returns and the list of the first network is empty afterwards.
\<close>

theorem isEqualConfig_overwrites_ipam_config:
  "ipam_config (ipam (config (valueOf two_networks (network_at 0 Map.empty)))) = Some [entry_full] \<and>
   ipam_config (ipam (config (valueOf two_networks (network_at 1 Map.empty)))) = Some [] \<and>
   (case isEqualConfig two_networks (network_at 0 Map.empty) (network_at 1 Map.empty) of
      Inl e \<Rightarrow> False
    | Inr (r, h') \<Rightarrow>
        ipam_config (ipam (config (valueOf h' (network_at 0 Map.empty)))) = Some [])"
  by (simp add: isEqualConfig_def Let_def valueOf_def two_networks_def network_at_def
      ipam_with_def)

lemma isEqualConfig_same_except_app_uuid:
  assumes s: "same_except_app_uuid h (config a) (config b)"
    and oc: "ipam_config (cells h (ipam (config b))) = Some oc"
  shows "returned (isEqualConfig h a b) = Inr True"
proof -
  from s have d: "driver (config a) = driver (config b)"
    and c: "cells h (ipam (config a)) = cells h (ipam (config b))"
    and e: "enableIPv6 (config a) = enableIPv6 (config b)"
    and i: "internal (config a) = internal (config b)"
    and l: "omit (labels (config a)) [''io.balena.app-uuid''] =
            omit (labels (config b)) [''io.balena.app-uuid'']"
    and p: "options (config a) = options (config b)"
    by (simp_all add: same_except_app_uuid_def)
  show ?thesis
  proof (cases "oc = []")
    case True
    have "(cells h (ipam (config a)))\<lparr>ipam_config := Some []\<rparr> = cells h (ipam (config b))"
      using c oc True by simp
    then show ?thesis using oc True d e i l p
      by (simp add: isEqualConfig_def Let_def isEqual_def returned_def)
  next
    case False
    then show ?thesis using oc d c e i l p
      by (simp add: isEqualConfig_def Let_def isEqual_def returned_def)
  qed
qed

lemma isEqualConfig_label_irrelevant:
  "returned (isEqualConfig h (set_app_uuid v a) (set_app_uuid w b)) =
   returned (isEqualConfig h a b)"
  by (simp add: isEqualConfig_def Let_def set_app_uuid_def omit_upd isEqual_def returned_def
      split: option.split)

text \<open>
  Claim C10 (the app-uuid label is ignored by the equality). Writing, changing or
  removing the label \<open>io.balena.app-uuid\<close> on either operand never changes what
  \<open>isEqualConfig\<close> returns; and for two networks whose configs are identical but for the
  presence or the value of that label, it returns true (the \<open>ipam.config\<close> of the other
  network being there to be read, as in every network a constructor has built).
\<close>

theorem isEqualConfig_ignores_app_uuid:
  "returned (isEqualConfig h (set_app_uuid v a) (set_app_uuid w b)) =
     returned (isEqualConfig h a b) \<and>
   (same_except_app_uuid h (config a) (config b) \<and>
    ipam_config (cells h (ipam (config b))) \<noteq> None \<longrightarrow>
      returned (isEqualConfig h a b) = Inr True)"
proof (intro conjI impI)
  show "returned (isEqualConfig h (set_app_uuid v a) (set_app_uuid w b)) =
        returned (isEqualConfig h a b)"
    by (rule isEqualConfig_label_irrelevant)
next
  assume "same_except_app_uuid h (config a) (config b) \<and>
          ipam_config (cells h (ipam (config b))) \<noteq> None"
  then obtain oc where "same_except_app_uuid h (config a) (config b)"
    and "ipam_config (cells h (ipam (config b))) = Some oc"
    by auto
  then show "returned (isEqualConfig h a b) = Inr True"
    by (rule isEqualConfig_same_except_app_uuid)
qed

text \<open>
  A network with the label and one without it, otherwise alike, compare equal, and
  still do after the label is changed on the first and removed on the second.
\<close>

theorem isEqualConfig_ignores_app_uuid_witness:
  "same_except_app_uuid two_networks
     (config (network_at 2 [''io.balena.app-uuid'' \<mapsto> ''deadbeef'']))
     (config (network_at 1 Map.empty)) \<and>
   ipam_config (cells two_networks (ipam (config (network_at 1 Map.empty)))) \<noteq> None \<and>
   returned (isEqualConfig two_networks
     (network_at 2 [''io.balena.app-uuid'' \<mapsto> ''deadbeef'']) (network_at 1 Map.empty)) = Inr True \<and>
   returned (isEqualConfig two_networks
     (set_app_uuid (Some ''cafe'') (network_at 2 [''io.balena.app-uuid'' \<mapsto> ''deadbeef'']))
     (set_app_uuid None (network_at 1 Map.empty))) = Inr True"
proof -
  note T = isEqualConfig_ignores_app_uuid [of two_networks "Some ''cafe''"
      "network_at 2 [''io.balena.app-uuid'' \<mapsto> ''deadbeef'']" None "network_at 1 Map.empty"]
  have s: "same_except_app_uuid two_networks
     (config (network_at 2 [''io.balena.app-uuid'' \<mapsto> ''deadbeef'']))
     (config (network_at 1 Map.empty))"
    by (simp add: same_except_app_uuid_def network_at_def two_networks_def omit_upd)
  have d: "ipam_config (cells two_networks (ipam (config (network_at 1 Map.empty)))) \<noteq> None"
    by (simp add: network_at_def two_networks_def ipam_with_def)
  have r: "returned (isEqualConfig two_networks
     (network_at 2 [''io.balena.app-uuid'' \<mapsto> ''deadbeef'']) (network_at 1 Map.empty)) = Inr True"
    by (rule mp [OF conjunct2 [OF T] conjI [OF s d]])
  from T have "returned (isEqualConfig two_networks
     (set_app_uuid (Some ''cafe'') (network_at 2 [''io.balena.app-uuid'' \<mapsto> ''deadbeef'']))
     (set_app_uuid None (network_at 1 Map.empty))) =
     returned (isEqualConfig two_networks
     (network_at 2 [''io.balena.app-uuid'' \<mapsto> ''deadbeef'']) (network_at 1 Map.empty))"
    by (rule conjunct1)
  then have r': "returned (isEqualConfig two_networks
     (set_app_uuid (Some ''cafe'') (network_at 2 [''io.balena.app-uuid'' \<mapsto> ''deadbeef'']))
     (set_app_uuid None (network_at 1 Map.empty))) = Inr True"
    using r by (rule trans)
  from s d r r' show ?thesis by (intro conjI)
qed

subsection \<open>Networks as values\<close>

text \<open>
  The boolean of \<open>isEqualConfig\<close> is the one \<open>isEqualConfig_value\<close> computes on the
  values the two networks have before the call.
\<close>

lemma isEqualConfig_value_agrees:
  assumes "isEqualConfig h a b = Inr (r, h')"
  shows "r = isEqualConfig_value (valueOf h a) (valueOf h b)"
proof -
  obtain oc where oc: "ipam_config (cells h (ipam (config b))) = Some oc"
    using assms by (auto simp: isEqualConfig_def Let_def split: option.splits)
  show ?thesis
  proof (cases "oc = []")
    case True
    with oc have idem:
      "(cells h (ipam (config b)))\<lparr>ipam_config := Some []\<rparr> = cells h (ipam (config b))"
      by simp
    show ?thesis
    proof (cases "ipam (config b) = ipam (config a)")
      case same: True
      from idem same have "(cells h (ipam (config a)))\<lparr>ipam_config := Some []\<rparr> =
          cells h (ipam (config a))" by simp
      with assms oc True same show ?thesis
        by (simp add: isEqualConfig_def Let_def isEqual_def isEqualConfig_value_def valueOf_def)
    next
      case False
      with assms oc True show ?thesis
        by (simp add: isEqualConfig_def Let_def isEqual_def isEqualConfig_value_def valueOf_def)
    qed
  next
    case False
    with assms oc show ?thesis
      by (auto simp: isEqualConfig_def Let_def isEqual_def isEqualConfig_value_def valueOf_def)
  qed
qed

text \<open>
  The default network of the planner is the value \<open>fromComposeObject\<close> builds from the
  empty compose object, for a label normalisation that keeps the empty labels empty.
\<close>

lemma defaultNetwork_fromComposeObject:
  assumes "normalizeLabels Map.empty = Map.empty"
  shows "\<exists>n h'. fromComposeObject normalizeLabels h ''default'' a u compose_empty = Inr (n, h') \<and>
           valueOf h' n = defaultNetwork a (Some u)"
  using assms
  by (simp add: fromComposeObject_def validateComposeConfig_never_raises Let_def alloc_def
      compose_empty_def valueOf_def defaultNetwork_def)

section \<open>Properties of the app planner\<close>

lemma find_name: "find (\<lambda>x. name x = n) xs = Some y \<Longrightarrow> name y = n \<and> y \<in> set xs"
  by (induction xs) (auto split: if_splits)

lemma lookupNetwork_None_iff:
  "lookupNetwork ns n = None \<longleftrightarrow> \<not> (\<exists>c \<in> set ns. name c = n)"
  by (auto simp: lookupNetwork_def find_None_iff)

text \<open>The target networks always hold a network named default.\<close>

lemma default_in_targetNetworks:
  "\<exists>t \<in> set (targetNetworks target). name t = ''default'' \<and>
     (lookupNetwork (networks target) ''default'' = None \<longrightarrow>
        t = defaultNetwork (app_appId target) (appUuid target))"
proof (cases "lookupNetwork (networks target) ''default''")
  case None
  then show ?thesis by (simp add: targetNetworks_def defaultNetwork_def)
next
  case (Some t)
  then have "name t = ''default'' \<and> t \<in> set (networks target)"
    unfolding lookupNetwork_def by (rule find_name)
  with Some show ?thesis by (auto simp: targetNetworks_def)
qed

text \<open>
  The test "should create the default network if it does not exist": for an empty
  current app and an empty target app the batch is the creation of the default network.
\<close>

lemma test_create_default_network:
  "nextStepsForAppUpdate isSameImage defaultContext (createApp [] [] [] False)
     (createApp [] [] [] True) = [CreateNetwork (defaultNetwork 1 None)]"
  by (simp add: nextStepsForAppUpdate_def volumeSteps_def networkSteps_def serviceSteps_def
      targetNetworks_def lookupNetwork_def createApp_def)

text \<open>
  Three more tests of the network steps: "should correctly infer a network remove
  step", "should correctly infer a network recreation step" (both rounds) and "should
  kill dependencies of networks before changing config".
\<close>

lemma test_network_remove_step:
  "RemoveNetwork (testNetwork Map.empty) \<in>
     set (nextStepsForAppUpdate isSameImage defaultContext
            (createApp [] [testNetwork Map.empty] [] False) (createApp [] [] [] True))"
  by (simp add: nextStepsForAppUpdate_def networkSteps_def targetNetworks_def lookupNetwork_def
      createApp_def testNetwork_def defaultNetwork_def)

lemma test_network_recreation:
  "RemoveNetwork (testNetwork Map.empty) \<in>
     set (nextStepsForAppUpdate isSameImage defaultContext
            (createApp [] [testNetwork Map.empty] [] False)
            (createApp [] [testNetwork [''TEST'' \<mapsto> ''TEST'']] [] True)) \<and>
   CreateNetwork (testNetwork [''TEST'' \<mapsto> ''TEST'']) \<in>
     set (nextStepsForAppUpdate isSameImage defaultContext
            (createApp [] [] [] False)
            (createApp [] [testNetwork [''TEST'' \<mapsto> ''TEST'']] [] True))"
  by (simp add: nextStepsForAppUpdate_def networkSteps_def targetNetworks_def lookupNetwork_def
      createApp_def testNetwork_def defaultNetwork_def isEqualConfig_value_def Let_def omit_def
      ipam_with_def fun_eq_iff)

lemma test_kill_before_network_change:
  "Kill testService \<in>
     set (nextStepsForAppUpdate isSameImage defaultContext
            (createApp [testService] [testNetwork Map.empty] [] False)
            (createApp [testService] [testNetwork [''test'' \<mapsto> ''test'']] [] True)) \<and>
   RemoveNetwork (testNetwork Map.empty) \<notin>
     set (nextStepsForAppUpdate isSameImage defaultContext
            (createApp [testService] [testNetwork Map.empty] [] False)
            (createApp [testService] [testNetwork [''test'' \<mapsto> ''test'']] [] True))"
  by (simp add: nextStepsForAppUpdate_def networkSteps_def volumeSteps_def serviceSteps_def
      stepsForService_def lookupService_def isEqualExceptForRunningAndRelease_def
      targetNetworks_def lookupNetwork_def teardownStep_def
      createApp_def testNetwork_def testService_def mainService_def defaultNetwork_def
      isEqualConfig_value_def Let_def omit_def ipam_with_def fun_eq_iff)

text \<open>
  Claim C7 (default network guarantee). For every target app with at least one service,
  either the current state of the app holds a network named default, or the batch of the
  planner holds a createNetwork step whose network is named default: the one of the
  target when the target has one, and otherwise the synthesized one, whose driver is
  bridge.
\<close>

theorem default_network_guarantee:
  assumes "services target \<noteq> []"
  shows "(\<exists>c \<in> set (networks current). name c = ''default'') \<or>
         (\<exists>n. CreateNetwork n \<in> set (nextStepsForAppUpdate isSameImage ctx current target) \<and>
              name n = ''default'' \<and>
              (if \<exists>t \<in> set (networks target). name t = ''default''
               then n \<in> set (networks target)
               else n = defaultNetwork (app_appId target) (appUuid target) \<and>
                    driver (config n) = ''bridge''))"
proof (cases "lookupNetwork (networks current) ''default''")
  case (Some c)
  then have "\<exists>c \<in> set (networks current). name c = ''default''"
    using lookupNetwork_None_iff [of "networks current" "''default''"] by simp
  then show ?thesis by (rule disjI1)
next
  case None
  obtain t where t: "t \<in> set (targetNetworks target)" "name t = ''default''"
    "lookupNetwork (networks target) ''default'' = None \<longrightarrow>
        t = defaultNetwork (app_appId target) (appUuid target)"
    using default_in_targetNetworks by blast
  from t None have "CreateNetwork t \<in> set (networkSteps current target)"
    by (simp add: networkSteps_def)
  then have 1: "CreateNetwork t \<in> set (nextStepsForAppUpdate isSameImage ctx current target)"
    by (simp add: nextStepsForAppUpdate_def)
  have 2: "if \<exists>t \<in> set (networks target). name t = ''default''
           then t \<in> set (networks target)
           else t = defaultNetwork (app_appId target) (appUuid target) \<and>
                driver (config t) = ''bridge''"
  proof (cases "lookupNetwork (networks target) ''default''")
    case None
    with t(3) show ?thesis
      by (simp add: lookupNetwork_None_iff defaultNetwork_def)
  next
    case (Some d)
    then have "\<exists>t \<in> set (networks target). name t = ''default''"
      using lookupNetwork_None_iff [of "networks target" "''default''"] by simp
    moreover from Some t(1) have "t \<in> set (networks target)"
      by (simp add: targetNetworks_def)
    ultimately show ?thesis by simp
  qed
  from 1 2 t(2) show ?thesis by (intro disjI2 exI [of _ t] conjI)
qed

text \<open>
  The target of the test with the service main and no network, against an empty current
  app: the batch creates the synthesized default network.
\<close>

theorem default_network_guarantee_witness:
  "services (createApp [mainService] [] [] True) \<noteq> [] \<and>
   set (networks (createApp [] [] [] False)) = {} \<and>
   CreateNetwork (defaultNetwork 1 None) \<in>
     set (nextStepsForAppUpdate (=) defaultContext (createApp [] [] [] False)
            (createApp [mainService] [] [] True))"
  using default_network_guarantee [of "createApp [mainService] [] [] True"
      "createApp [] [] [] False" "(=)" defaultContext]
  by (simp add: createApp_def)

end
